theory Spec2Isabelle
  imports Main "HOL-Library.List_Lexorder" "HOL-Library.Char_ord"
begin

section \<open>Announcements endpoints: data model\<close>

text \<open>
  The module \<^verbatim>\<open>backend/routers/announcements.py\<close> holds five request handlers over
  one MongoDB collection of announcement documents and one collection of teachers.
  Strings are compared as Python and MongoDB compare them: lexicographically, character
  by character, a proper prefix being smaller (the order of \<open>List_Lexorder\<close> over
  \<open>Char_ord\<close>). A character here is a byte; on the ASCII strings of dates the order
  of bytes is the order of code points.
\<close>

text \<open>The request body of POST: class \<^verbatim>\<open>Announcement\<close>.\<close>

record Announcement =
  message :: string
  start_date :: "string option"
  expiration_date :: string

text \<open>The request body of PUT: class \<^verbatim>\<open>AnnouncementUpdate\<close>, every field optional.\<close>

record AnnouncementUpdate =
  upd_message :: "string option"
  upd_start_date :: "string option"
  upd_expiration_date :: "string option"

text \<open>
  A field of the JSON body of PUT, before the model class reads it: left out, the JSON
  \<^verbatim>\<open>null\<close>, or a string. Each field of \<^verbatim>\<open>AnnouncementUpdate\<close> is declared
  \<^verbatim>\<open>Optional[str]\<close> with default \<^verbatim>\<open>None\<close>, so a field left out takes the default and a
  null is the value \<^verbatim>\<open>None\<close> itself.
\<close>

datatype json_field = Omitted | Null | Given string

fun field_value :: "json_field \<Rightarrow> string option" where
  "field_value Omitted = None"
| "field_value Null = None"
| "field_value (Given s) = Some s"

definition AnnouncementUpdate_of_json ::
  "json_field \<Rightarrow> json_field \<Rightarrow> json_field \<Rightarrow> AnnouncementUpdate" where
  "AnnouncementUpdate_of_json m s e =
     \<lparr>upd_message = field_value m, upd_start_date = field_value s,
      upd_expiration_date = field_value e\<rparr>"

text \<open>
  A stored document. The handlers read the two dates with \<^verbatim>\<open>.get\<close>, which gives
  \<^verbatim>\<open>None\<close> for a missing key as for a stored null, so both fields are optional here.
  The key \<^verbatim>\<open>_id\<close> is an ObjectId in the store (type \<open>'i\<close>) and a string in every
  document a handler returns.
\<close>

record 'i document =
  doc_id :: 'i
  doc_message :: string
  doc_start_date :: "string option"
  doc_expiration_date :: "string option"

type_synonym 'i collection = "'i document list"

text \<open>
  What a handler can raise: an \<^verbatim>\<open>HTTPException\<close> with its status code and detail, or an
  exception that no handler catches (the comparison of an offset-naive with an
  offset-aware datetime, a duplicate key on insertion).
\<close>

datatype exception = HTTPException nat string | TypeError | DuplicateKeyError

abbreviation Unauthorized :: exception where
  "Unauthorized \<equiv> HTTPException 401 ''Unauthorized''"

abbreviation InvalidDateRange :: exception where
  "InvalidDateRange \<equiv> HTTPException 400 ''Start date must be before expiration date''"

abbreviation InvalidDateFormat :: exception where
  "InvalidDateFormat \<equiv> HTTPException 400 ''Invalid date format''"

abbreviation InvalidId :: exception where
  "InvalidId \<equiv> HTTPException 400 ''Invalid announcement ID''"

abbreviation NotFound :: exception where
  "NotFound \<equiv> HTTPException 404 ''Announcement not found''"

abbreviation NoFieldsProvided :: exception where
  "NoFieldsProvided \<equiv> HTTPException 400 ''No fields to update''"

subsection \<open>Library functions the handlers call\<close>

text \<open>
  A Python \<^verbatim>\<open>datetime\<close>: offset-naive or offset-aware, each a point on its own time
  line (microseconds; for an aware value the UTC instant). An order comparison of a
  naive with an aware value raises \<^verbatim>\<open>TypeError\<close>.
\<close>

datatype datetime = Naive int | Aware int

fun dt_ge :: "datetime \<Rightarrow> datetime \<Rightarrow> exception + bool" where
  "dt_ge (Naive a) (Naive b) = Inr (a \<ge> b)"
| "dt_ge (Aware a) (Aware b) = Inr (a \<ge> b)"
| "dt_ge (Naive a) (Aware b) = Inl TypeError"
| "dt_ge (Aware a) (Naive b) = Inl TypeError"

text \<open>
  The library functions are parameters of the model: \<^verbatim>\<open>datetime.fromisoformat\<close>
  (\<open>None\<close> when it raises \<^verbatim>\<open>ValueError\<close>), the constructor \<^verbatim>\<open>ObjectId\<close> of a string
  (\<open>None\<close> when it raises), and \<^verbatim>\<open>str\<close> of an ObjectId.
\<close>

record 'i library =
  fromisoformat :: "string \<Rightarrow> datetime option"
  ObjectId :: "string \<Rightarrow> 'i option"
  str_oid :: "'i \<Rightarrow> string"

text \<open>\<^verbatim>\<open>s.replace('Z', '+00:00')\<close>: every occurrence is replaced.\<close>

definition replace_Z :: "string \<Rightarrow> string" where
  "replace_Z s = concat (map (\<lambda>c. if c = CHR ''Z'' then ''+00:00'' else [c]) s)"

text \<open>
  \<^verbatim>\<open>if x: x_dt = datetime.fromisoformat(x.replace('Z', '+00:00'))\<close> inside a \<^verbatim>\<open>try\<close>
  that turns \<^verbatim>\<open>ValueError\<close> into "Invalid date format". \<^verbatim>\<open>None\<close> and the empty string
  are false in Python, so neither is parsed.
\<close>

definition parse_if_truthy :: "'i library \<Rightarrow> string option \<Rightarrow> exception + datetime option" where
  "parse_if_truthy lib x =
     (case x of
        None \<Rightarrow> Inr None
      | Some s \<Rightarrow>
          if s = [] then Inr None
          else (case fromisoformat lib (replace_Z s) of
                  None \<Rightarrow> Inl InvalidDateFormat
                | Some dt \<Rightarrow> Inr (Some dt)))"

text \<open>\<^verbatim>\<open>if start_dt >= expiration_dt: raise HTTPException(400, ...)\<close>\<close>

definition check_order :: "datetime \<Rightarrow> datetime \<Rightarrow> exception + unit" where
  "check_order start_dt expiration_dt =
     (case dt_ge start_dt expiration_dt of
        Inl e \<Rightarrow> Inl e
      | Inr ge \<Rightarrow> if ge then Inl InvalidDateRange else Inr ())"

subsection \<open>The collection\<close>

text \<open>\<^verbatim>\<open>find_one({"_id": i})\<close>: the first document with that key.\<close>

fun find_one :: "'i collection \<Rightarrow> 'i \<Rightarrow> 'i document option" where
  "find_one [] i = None"
| "find_one (d # c) i = (if doc_id d = i then Some d else find_one c i)"

text \<open>
  \<^verbatim>\<open>insert_one\<close> with the key the driver generated for the document: the unique index
  on \<^verbatim>\<open>_id\<close> refuses a key already in the collection.
\<close>

definition insert_one :: "'i collection \<Rightarrow> 'i document \<Rightarrow> exception + 'i collection" where
  "insert_one c d =
     (if doc_id d \<in> set (map doc_id c) then Inl DuplicateKeyError else Inr (c @ [d]))"

text \<open>The fields a \<^verbatim>\<open>$set\<close> can name, and the update document as the list of its items.\<close>

datatype field = Message | Start_date | Expiration_date

type_synonym update_doc = "(field \<times> string) list"

fun set_field :: "field \<times> string \<Rightarrow> 'i document \<Rightarrow> 'i document" where
  "set_field (Message, v) d = d\<lparr>doc_message := v\<rparr>"
| "set_field (Start_date, v) d = d\<lparr>doc_start_date := Some v\<rparr>"
| "set_field (Expiration_date, v) d = d\<lparr>doc_expiration_date := Some v\<rparr>"

definition apply_set :: "update_doc \<Rightarrow> 'i document \<Rightarrow> 'i document" where
  "apply_set u d = fold set_field u d"

text \<open>\<^verbatim>\<open>update_one({"_id": i}, {"$set": u})\<close>: the first document with that key.\<close>

fun update_one :: "'i collection \<Rightarrow> 'i \<Rightarrow> update_doc \<Rightarrow> 'i collection" where
  "update_one [] i u = []"
| "update_one (d # c) i u =
     (if doc_id d = i then apply_set u d # c else d # update_one c i u)"

text \<open>\<^verbatim>\<open>delete_one({"_id": i})\<close>: the count of deleted documents and the collection left.\<close>

fun delete_one :: "'i collection \<Rightarrow> 'i \<Rightarrow> nat \<times> 'i collection" where
  "delete_one [] i = (0, [])"
| "delete_one (d # c) i =
     (if doc_id d = i then (1, c)
      else (case delete_one c i of (n, c') \<Rightarrow> (n, d # c')))"

text \<open>\<^verbatim>\<open>announcement["_id"] = str(announcement["_id"])\<close>\<close>

definition id_to_str :: "'i library \<Rightarrow> 'i document \<Rightarrow> string document" where
  "id_to_str lib d =
     \<lparr>doc_id = str_oid lib (doc_id d), doc_message = doc_message d,
      doc_start_date = doc_start_date d, doc_expiration_date = doc_expiration_date d\<rparr>"

section \<open>The handlers\<close>

text \<open>
  A handler takes the teachers, the announcements collection and its request, and
  returns what it returned or raised together with the collection it leaves behind.
\<close>

definition verify_teacher :: "(string \<rightharpoonup> 't) \<Rightarrow> string \<Rightarrow> exception + 't" where
  "verify_teacher teachers username =
     (case teachers username of None \<Rightarrow> Inl Unauthorized | Some teacher \<Rightarrow> Inr teacher)"

text \<open>
  The query \<^verbatim>\<open>{"expiration_date": {"$gte": now}}\<close> matches a document whose field is a
  string not below \<open>now\<close>; a missing or null field does not match.
\<close>

definition expiration_gte :: "string \<Rightarrow> 'i document \<Rightarrow> bool" where
  "expiration_gte now d =
     (case doc_expiration_date d of None \<Rightarrow> False | Some e \<Rightarrow> e \<ge> now)"

definition started :: "string \<Rightarrow> 'i document \<Rightarrow> bool" where
  "started now d = (case doc_start_date d of None \<Rightarrow> True | Some s \<Rightarrow> s \<le> now)"

definition get_active_announcements ::
  "'i library \<Rightarrow> 'i collection \<Rightarrow> string \<Rightarrow> string document list" where
  "get_active_announcements lib c now =
     (let announcements = filter (expiration_gte now) c
      in map (id_to_str lib) (filter (started now) announcements))"

definition get_all_announcements ::
  "'i library \<Rightarrow> (string \<rightharpoonup> 't) \<Rightarrow> 'i collection \<Rightarrow> string
   \<Rightarrow> (exception + string document list) \<times> 'i collection" where
  "get_all_announcements lib teachers c username =
     (case verify_teacher teachers username of
        Inl e \<Rightarrow> (Inl e, c)
      | Inr _ \<Rightarrow> (Inr (map (id_to_str lib) c), c))"

text \<open>The \<^verbatim>\<open>try\<close> block of \<^verbatim>\<open>create_announcement\<close>.\<close>

definition create_validate_dates ::
  "'i library \<Rightarrow> string option \<Rightarrow> string \<Rightarrow> exception + unit" where
  "create_validate_dates lib start expiration =
     (case fromisoformat lib (replace_Z expiration) of
        None \<Rightarrow> Inl InvalidDateFormat
      | Some expiration_dt \<Rightarrow>
          (case parse_if_truthy lib start of
             Inl e \<Rightarrow> Inl e
           | Inr None \<Rightarrow> Inr ()
           | Inr (Some start_dt) \<Rightarrow> check_order start_dt expiration_dt))"

text \<open>
  \<open>new_id\<close> is the ObjectId the driver generates for the inserted document.
\<close>

definition create_announcement ::
  "'i library \<Rightarrow> (string \<rightharpoonup> 't) \<Rightarrow> 'i collection \<Rightarrow> 'i \<Rightarrow> Announcement \<Rightarrow> string
   \<Rightarrow> (exception + string document) \<times> 'i collection" where
  "create_announcement lib teachers c new_id announcement username =
     (case verify_teacher teachers username of
        Inl e \<Rightarrow> (Inl e, c)
      | Inr _ \<Rightarrow>
          (case create_validate_dates lib (start_date announcement)
                  (expiration_date announcement) of
             Inl e \<Rightarrow> (Inl e, c)
           | Inr _ \<Rightarrow>
               (let announcement_doc =
                      \<lparr>doc_id = new_id, doc_message = message announcement,
                       doc_start_date = start_date announcement,
                       doc_expiration_date = Some (expiration_date announcement)\<rparr>
                in case insert_one c announcement_doc of
                     Inl e \<Rightarrow> (Inl e, c)
                   | Inr c' \<Rightarrow> (Inr (id_to_str lib announcement_doc), c'))))"

text \<open>The update document: only the fields that are not \<^verbatim>\<open>None\<close>.\<close>

definition build_update_doc :: "AnnouncementUpdate \<Rightarrow> update_doc" where
  "build_update_doc announcement =
     (case upd_message announcement of None \<Rightarrow> [] | Some m \<Rightarrow> [(Message, m)]) @
     (case upd_start_date announcement of None \<Rightarrow> [] | Some s \<Rightarrow> [(Start_date, s)]) @
     (case upd_expiration_date announcement of
        None \<Rightarrow> [] | Some e \<Rightarrow> [(Expiration_date, e)])"

text \<open>\<^verbatim>\<open>update_doc.get(key, default)\<close>\<close>

definition get_or :: "update_doc \<Rightarrow> field \<Rightarrow> string option \<Rightarrow> string option" where
  "get_or u k dflt = (case map_of u k of Some v \<Rightarrow> Some v | None \<Rightarrow> dflt)"

text \<open>The \<^verbatim>\<open>try\<close> block of \<^verbatim>\<open>update_announcement\<close>, on the effective pair of dates.\<close>

definition update_validate_dates ::
  "'i library \<Rightarrow> string option \<Rightarrow> string option \<Rightarrow> exception + unit" where
  "update_validate_dates lib start exp_date =
     (case parse_if_truthy lib exp_date of
        Inl e \<Rightarrow> Inl e
      | Inr expiration_dt \<Rightarrow>
          (case parse_if_truthy lib start of
             Inl e \<Rightarrow> Inl e
           | Inr None \<Rightarrow> Inr ()
           | Inr (Some start_dt) \<Rightarrow>
               (case expiration_dt of
                  None \<Rightarrow> Inr ()
                | Some edt \<Rightarrow> check_order start_dt edt)))"

definition update_announcement ::
  "'i library \<Rightarrow> (string \<rightharpoonup> 't) \<Rightarrow> 'i collection \<Rightarrow> string \<Rightarrow> AnnouncementUpdate
   \<Rightarrow> string \<Rightarrow> (exception + string document) \<times> 'i collection" where
  "update_announcement lib teachers c announcement_id announcement username =
     (case verify_teacher teachers username of
        Inl e \<Rightarrow> (Inl e, c)
      | Inr _ \<Rightarrow>
          (case ObjectId lib announcement_id of
             None \<Rightarrow> (Inl InvalidId, c)
           | Some oid \<Rightarrow>
               (case find_one c oid of
                  None \<Rightarrow> (Inl NotFound, c)
                | Some existing \<Rightarrow>
                    (let update_doc = build_update_doc announcement;
                         exp_date = get_or update_doc Expiration_date
                                      (doc_expiration_date existing);
                         start = get_or update_doc Start_date
                                      (doc_start_date existing)
                     in case update_validate_dates lib start exp_date of
                          Inl e \<Rightarrow> (Inl e, c)
                        | Inr _ \<Rightarrow>
                            if update_doc = [] then (Inl NoFieldsProvided, c)
                            else (let c' = update_one c oid update_doc
                                  in case find_one c' oid of
                                       None \<Rightarrow> (Inl TypeError, c')
                                     | Some updated \<Rightarrow>
                                         (Inr (id_to_str lib updated), c'))))))"

definition delete_announcement ::
  "'i library \<Rightarrow> (string \<rightharpoonup> 't) \<Rightarrow> 'i collection \<Rightarrow> string \<Rightarrow> string
   \<Rightarrow> (exception + string) \<times> 'i collection" where
  "delete_announcement lib teachers c announcement_id username =
     (case verify_teacher teachers username of
        Inl e \<Rightarrow> (Inl e, c)
      | Inr _ \<Rightarrow>
          (case ObjectId lib announcement_id of
             None \<Rightarrow> (Inl InvalidId, c)
           | Some oid \<Rightarrow>
               (case delete_one c oid of
                  (deleted_count, c') \<Rightarrow>
                    if deleted_count = 0 then (Inl NotFound, c')
                    else (Inr ''Announcement deleted successfully'', c'))))"

section \<open>Predicates of the specification\<close>

text \<open>
  The glossary's validity window \<open>(start_date, expiration_date]\<close>: open below, closed
  above, a missing start date meaning always open.
\<close>

definition window_half_open :: "string \<Rightarrow> 'i document \<Rightarrow> bool" where
  "window_half_open now d =
     ((case doc_start_date d of None \<Rightarrow> True | Some s \<Rightarrow> s < now) \<and>
      (case doc_expiration_date d of None \<Rightarrow> False | Some e \<Rightarrow> now \<le> e))"

text \<open>The key of every document is its own: the unique index on \<^verbatim>\<open>_id\<close>.\<close>

definition unique_ids :: "'i collection \<Rightarrow> bool" where
  "unique_ids c = distinct (map doc_id c)"

text \<open>The stored pair of dates of a document passes the date check of the update handler.\<close>

definition dates_valid :: "'i library \<Rightarrow> 'i document \<Rightarrow> bool" where
  "dates_valid lib d =
     (update_validate_dates lib (doc_start_date d) (doc_expiration_date d) = Inr ())"

definition all_dates_valid :: "'i library \<Rightarrow> 'i collection \<Rightarrow> bool" where
  "all_dates_valid lib c = list_all (dates_valid lib) c"

text \<open>
  The collections the handlers can leave behind, starting from the empty collection:
  the states of the store when this module alone writes to it.
\<close>

inductive reachable :: "'i library \<Rightarrow> (string \<rightharpoonup> 't) \<Rightarrow> 'i collection \<Rightarrow> bool"
  for lib :: "'i library" and teachers :: "string \<rightharpoonup> 't" where
  reachable_empty: "reachable lib teachers []"
| reachable_create:
    "reachable lib teachers c \<Longrightarrow>
     reachable lib teachers (snd (create_announcement lib teachers c new_id a username))"
| reachable_update:
    "reachable lib teachers c \<Longrightarrow>
     reachable lib teachers (snd (update_announcement lib teachers c aid u username))"
| reachable_delete:
    "reachable lib teachers c \<Longrightarrow>
     reachable lib teachers (snd (delete_announcement lib teachers c aid username))"

text \<open>A JSON body in which every null field is left out instead.\<close>

fun drop_null :: "json_field \<Rightarrow> json_field" where
  "drop_null Null = Omitted"
| "drop_null Omitted = Omitted"
| "drop_null (Given s) = Given s"

section \<open>Sample values\<close>

text \<open>
  Values of the library functions on a few strings, for evaluating the handlers on
  concrete requests: \<^verbatim>\<open>datetime.fromisoformat\<close> on three well-formed date-times (it
  raises \<^verbatim>\<open>ValueError\<close> on the empty string and on \<^verbatim>\<open>"tomorrow"\<close>), and \<^verbatim>\<open>ObjectId\<close> on
  two strings of 24 hexadecimal digits (it raises on a string of any other length).
  The ObjectId is represented by its string.
\<close>

definition sample_fromisoformat :: "string \<Rightarrow> datetime option" where
  "sample_fromisoformat s =
     (if s = ''2025-01-01T00:00:00'' then Some (Naive 1735689600000000)
      else if s = ''2025-06-01T00:00:00'' then Some (Naive 1748736000000000)
      else if s = ''2099-01-01T00:00:00+00:00'' then Some (Aware 4070908800000000)
      else None)"

definition sample_ObjectId :: "string \<Rightarrow> string option" where
  "sample_ObjectId s =
     (if s = ''65f1a0000000000000000001'' \<or> s = ''65f1a0000000000000000002''
      then Some s else None)"

definition sample_lib :: "string library" where
  "sample_lib =
     \<lparr>fromisoformat = sample_fromisoformat, ObjectId = sample_ObjectId,
      str_oid = (\<lambda>i. i)\<rparr>"

definition sample_teachers :: "string \<rightharpoonup> unit" where
  "sample_teachers = [''mrodriguez'' \<mapsto> ()]"

definition exam_doc :: "string document" where
  "exam_doc =
     \<lparr>doc_id = ''65f1a0000000000000000001'', doc_message = ''Exam tomorrow'',
      doc_start_date = Some ''2025-01-01T00:00:00'',
      doc_expiration_date = Some ''2025-06-01T00:00:00''\<rparr>"

definition trip_doc :: "string document" where
  "trip_doc =
     \<lparr>doc_id = ''65f1a0000000000000000002'', doc_message = ''Field trip'',
      doc_start_date = None,
      doc_expiration_date = Some ''2099-01-01T00:00:00Z''\<rparr>"

section \<open>The active announcements\<close>

text \<open>Rendering the key as a string leaves the other fields alone.\<close>

lemma id_to_str_fields:
  "doc_message (id_to_str lib d) = doc_message d"
  "doc_start_date (id_to_str lib d) = doc_start_date d"
  "doc_expiration_date (id_to_str lib d) = doc_expiration_date d"
  "doc_id (id_to_str lib d) = str_oid lib (doc_id d)"
  by (simp_all add: id_to_str_def)

lemma active_dates_of_id_to_str:
  "expiration_gte now (id_to_str lib d) = expiration_gte now d"
  "started now (id_to_str lib d) = started now d"
  by (simp_all add: expiration_gte_def started_def id_to_str_fields)

text \<open>
  A stored document is listed by \<open>get_active_announcements\<close> exactly when both filters
  of the handler accept it.
\<close>

lemma mem_get_active:
  assumes "d \<in> set c"
  shows "id_to_str lib d \<in> set (get_active_announcements lib c now)
         \<longleftrightarrow> expiration_gte now d \<and> started now d"
proof
  assume "id_to_str lib d \<in> set (get_active_announcements lib c now)"
  then obtain d' where d': "d' \<in> set c" "expiration_gte now d'" "started now d'"
      "id_to_str lib d' = id_to_str lib d"
    by (auto simp: get_active_announcements_def)
  from d'(2,3) have "expiration_gte now (id_to_str lib d')" "started now (id_to_str lib d')"
    by (simp_all add: active_dates_of_id_to_str)
  then show "expiration_gte now d \<and> started now d"
    by (simp add: d'(4) active_dates_of_id_to_str)
next
  assume "expiration_gte now d \<and> started now d"
  with assms show "id_to_str lib d \<in> set (get_active_announcements lib c now)"
    by (auto simp: get_active_announcements_def)
qed

text \<open>
  C1. For every stored document and every timestamp \<open>now\<close>, the result of
  \<open>get_active_announcements\<close> includes the document if and only if its expiration date
  is a string not below \<open>now\<close> and its start date is absent or a string not above
  \<open>now\<close>, the strings being compared lexicographically.
\<close>

theorem get_active_iff:
  assumes "d \<in> set c"
  shows "id_to_str lib d \<in> set (get_active_announcements lib c now) \<longleftrightarrow>
     ((\<exists>e. doc_expiration_date d = Some e \<and> e \<ge> now) \<and>
      (doc_start_date d = None \<or> (\<exists>s. doc_start_date d = Some s \<and> s \<le> now)))"
  unfolding mem_get_active [OF assms]
  by (auto simp: expiration_gte_def started_def split: option.splits)

theorem get_active_iff_witness:
  "exam_doc \<in> set [exam_doc, trip_doc] \<and>
   id_to_str sample_lib exam_doc
     \<in> set (get_active_announcements sample_lib [exam_doc, trip_doc]
              ''2025-03-01T00:00:00.123456'') \<and>
   id_to_str sample_lib exam_doc
     \<notin> set (get_active_announcements sample_lib [exam_doc, trip_doc]
              ''2025-07-01T00:00:00.123456'')"
  using get_active_iff [of exam_doc "[exam_doc, trip_doc]" sample_lib
      "''2025-03-01T00:00:00.123456''"]
    get_active_iff [of exam_doc "[exam_doc, trip_doc]" sample_lib
      "''2025-07-01T00:00:00.123456''"]
  by (simp add: exam_doc_def)

text \<open>
  C9, as stated, fails: a document whose start date equals \<open>now\<close> is listed as active,
  although the half-open window \<open>(start_date, expiration_date]\<close> does not contain
  \<open>now\<close>. (\<^verbatim>\<open>isoformat\<close> prints no fraction when the microsecond is 0.)
\<close>

theorem window_lower_bound_counterexample:
  "id_to_str sample_lib exam_doc
     \<in> set (get_active_announcements sample_lib [exam_doc] ''2025-01-01T00:00:00'') \<and>
   doc_start_date exam_doc = Some ''2025-01-01T00:00:00'' \<and>
   \<not> window_half_open ''2025-01-01T00:00:00'' exam_doc"
  by (simp add: get_active_announcements_def expiration_gte_def started_def
      window_half_open_def exam_doc_def)

text \<open>
  C9, amended. An announcement is active exactly when the closed window
  \<open>[start_date, expiration_date]\<close> contains the current time: the documents listed are
  those of the half-open window together with those whose start date equals \<open>now\<close>
  and whose expiration date is not below \<open>now\<close>; a missing start date means always
  open.
\<close>

theorem active_window_closed:
  assumes "d \<in> set c"
  shows "id_to_str lib d \<in> set (get_active_announcements lib c now) \<longleftrightarrow>
     window_half_open now d \<or>
     (doc_start_date d = Some now \<and> expiration_gte now d)"
  unfolding mem_get_active [OF assms]
  by (auto simp: expiration_gte_def started_def window_half_open_def split: option.splits)

theorem active_window_closed_witness:
  "exam_doc \<in> set [exam_doc] \<and>
   id_to_str sample_lib exam_doc
     \<in> set (get_active_announcements sample_lib [exam_doc] ''2025-01-01T00:00:00'')"
  using active_window_closed [of exam_doc "[exam_doc]" sample_lib "''2025-01-01T00:00:00''"]
  by (simp add: exam_doc_def expiration_gte_def)

section \<open>Facts about the collection\<close>

lemma find_one_SomeD: "find_one c i = Some d \<Longrightarrow> d \<in> set c \<and> doc_id d = i"
  by (induction c) (auto split: if_splits)

lemma find_one_None_iff: "find_one c i = None \<longleftrightarrow> i \<notin> doc_id ` set c"
  by (induction c) auto

lemma find_one_unique:
  "unique_ids c \<Longrightarrow> d \<in> set c \<Longrightarrow> find_one c (doc_id d) = Some d"
  by (induction c) (auto simp: unique_ids_def)

lemma set_field_id: "doc_id (set_field kv d) = doc_id d"
  by (cases kv; cases "fst kv") simp_all

lemma apply_set_id: "doc_id (apply_set u d) = doc_id d"
  unfolding apply_set_def by (induction u arbitrary: d) (simp_all add: set_field_id)

lemma update_one_ids: "map doc_id (update_one c i u) = map doc_id c"
  by (induction c) (simp_all add: apply_set_id)

lemma find_one_update_one:
  "find_one (update_one c i u) j =
     (if j = i then map_option (apply_set u) (find_one c i) else find_one c j)"
  by (induction c) (auto simp: apply_set_id)

lemma delete_one_absent: "find_one c i = None \<Longrightarrow> delete_one c i = (0, c)"
  by (induction c) (auto split: if_splits)

lemma delete_one_present:
  "find_one c i = Some d \<Longrightarrow> \<exists>c'. delete_one c i = (1, c')"
  by (induction c) (auto split: if_splits prod.splits)

lemma delete_one_set:
  "unique_ids c \<Longrightarrow> find_one c i = Some d \<Longrightarrow> delete_one c i = (n, c')
   \<Longrightarrow> set c' = set c - {d} \<and> unique_ids c' \<and> find_one c' i = None"
proof (induction c arbitrary: n c')
  case Nil
  then show ?case by simp
next
  case (Cons a c)
  show ?case
  proof (cases "doc_id a = i")
    case True
    with Cons.prems have "a = d" "c' = c" by simp_all
    moreover from Cons.prems(1) have "a \<notin> set c" "doc_id a \<notin> doc_id ` set c" "unique_ids c"
      by (auto simp: unique_ids_def)
    ultimately show ?thesis using True by (auto simp: find_one_None_iff)
  next
    case False
    obtain m r where r: "delete_one c i = (m, r)" by (cases "delete_one c i")
    from Cons.prems(1) have u: "unique_ids c" "doc_id a \<notin> doc_id ` set c"
      by (auto simp: unique_ids_def)
    from Cons.prems(2) False have f: "find_one c i = Some d" by simp
    from Cons.IH [OF u(1) f r] have ih: "set r = set c - {d}" "unique_ids r" "find_one r i = None"
      by simp_all
    from Cons.prems(3) False r have c': "c' = a # r" by simp
    from f have "doc_id d = i" by (simp add: find_one_SomeD)
    with False have "a \<noteq> d" by auto
    with ih u False show ?thesis
      by (auto simp: c' unique_ids_def)
  qed
qed

section \<open>Authorization\<close>

text \<open>
  C8. With a username for which no teacher record exists, each of
  \<open>get_all_announcements\<close>, \<open>create_announcement\<close>, \<open>update_announcement\<close> and
  \<open>delete_announcement\<close> raises Unauthorized whatever the rest of the request and the
  collection are, and leaves the collection as it was. With a username for which a
  teacher record exists, whatever the record holds, \<open>verify_teacher\<close> returns it and
  none of the four handlers raises Unauthorized.
\<close>

theorem unauthorized_first:
  "(teachers username = None \<longrightarrow>
      get_all_announcements lib teachers c username = (Inl Unauthorized, c) \<and>
      create_announcement lib teachers c new_id a username = (Inl Unauthorized, c) \<and>
      update_announcement lib teachers c aid u username = (Inl Unauthorized, c) \<and>
      delete_announcement lib teachers c aid username = (Inl Unauthorized, c)) \<and>
   (teachers username = Some t \<longrightarrow>
      verify_teacher teachers username = Inr t \<and>
      fst (get_all_announcements lib teachers c username) \<noteq> Inl Unauthorized \<and>
      fst (create_announcement lib teachers c new_id a username) \<noteq> Inl Unauthorized \<and>
      fst (update_announcement lib teachers c aid u username) \<noteq> Inl Unauthorized \<and>
      fst (delete_announcement lib teachers c aid username) \<noteq> Inl Unauthorized)"
proof (intro conjI impI)
  assume n: "teachers username = None"
  then have v: "verify_teacher teachers username = Inl Unauthorized"
    by (simp add: verify_teacher_def)
  show "get_all_announcements lib teachers c username = (Inl Unauthorized, c)"
    by (simp add: get_all_announcements_def v)
  show "create_announcement lib teachers c new_id a username = (Inl Unauthorized, c)"
    by (simp add: create_announcement_def v)
  show "update_announcement lib teachers c aid u username = (Inl Unauthorized, c)"
    by (simp add: update_announcement_def v)
  show "delete_announcement lib teachers c aid username = (Inl Unauthorized, c)"
    by (simp add: delete_announcement_def v)
next
  assume s: "teachers username = Some t"
  then show v: "verify_teacher teachers username = Inr t"
    by (simp add: verify_teacher_def)
  show "fst (get_all_announcements lib teachers c username) \<noteq> Inl Unauthorized"
    by (simp add: get_all_announcements_def v)
  have co: "check_order x y \<noteq> Inl Unauthorized" for x y
    by (cases x; cases y) (simp_all add: check_order_def)
  have pt: "parse_if_truthy lib x \<noteq> Inl Unauthorized" for x
    by (simp add: parse_if_truthy_def split: option.splits)
  have cv: "create_validate_dates lib x y \<noteq> Inl Unauthorized" for x y
    using co pt [of x]
    by (auto simp: create_validate_dates_def split: option.splits sum.splits)
  have uv: "update_validate_dates lib x y \<noteq> Inl Unauthorized" for x y
    using co pt [of x] pt [of y]
    by (auto simp: update_validate_dates_def split: option.splits sum.splits)
  show "fst (create_announcement lib teachers c new_id a username) \<noteq> Inl Unauthorized"
    using cv [of "start_date a" "expiration_date a"]
    by (auto simp: create_announcement_def v insert_one_def Let_def split: sum.splits)
  show "fst (update_announcement lib teachers c aid u username) \<noteq> Inl Unauthorized"
    using uv
    by (auto simp: update_announcement_def v Let_def split: sum.splits option.splits)
  show "fst (delete_announcement lib teachers c aid username) \<noteq> Inl Unauthorized"
    by (auto simp: delete_announcement_def v split: option.splits prod.splits)
qed

theorem unauthorized_first_witness:
  "sample_teachers ''intruder'' = None \<and>
   create_announcement sample_lib sample_teachers [exam_doc] ''65f1a0000000000000000001''
       \<lparr>message = ''Hello'', start_date = Some ''tomorrow'', expiration_date = ''''\<rparr>
       ''intruder'' = (Inl Unauthorized, [exam_doc]) \<and>
   delete_announcement sample_lib sample_teachers [exam_doc] ''no such id'' ''intruder''
     = (Inl Unauthorized, [exam_doc]) \<and>
   sample_teachers ''mrodriguez'' = Some () \<and>
   verify_teacher sample_teachers ''mrodriguez'' = Inr ()"
  using
    unauthorized_first [where teachers = sample_teachers and username = "''intruder''"
      and lib = sample_lib and c = "[exam_doc]" and new_id = "''65f1a0000000000000000001''"
      and a = "\<lparr>message = ''Hello'', start_date = Some ''tomorrow'', expiration_date = ''''\<rparr>"
      and aid = "''no such id''"
      and u = "\<lparr>upd_message = None, upd_start_date = None, upd_expiration_date = None\<rparr>"
      and t = "()"]
    unauthorized_first [where teachers = sample_teachers and username = "''mrodriguez''"
      and lib = sample_lib and c = "[exam_doc]" and new_id = "''65f1a0000000000000000001''"
      and a = "\<lparr>message = ''Hello'', start_date = Some ''tomorrow'', expiration_date = ''''\<rparr>"
      and aid = "''no such id''"
      and u = "\<lparr>upd_message = None, upd_start_date = None, upd_expiration_date = None\<rparr>"
      and t = "()"]
  by (simp add: sample_teachers_def)

section \<open>Deleting\<close>

text \<open>
  C7. For an authorized delete with a well-formed identifier, on a collection whose keys
  are unique: if no document has that key the handler raises NotFound and the collection
  is unchanged; if a document has it, the handler returns the confirmation, the
  collection left is the old one without that document, and a second delete of the same
  identifier raises NotFound.
\<close>

theorem delete_outcomes:
  assumes "teachers username = Some t" and "ObjectId lib aid = Some oid"
    and "unique_ids c"
  shows
    "(find_one c oid = None \<longrightarrow>
        delete_announcement lib teachers c aid username = (Inl NotFound, c)) \<and>
     (find_one c oid = Some d \<longrightarrow>
        fst (delete_announcement lib teachers c aid username)
          = Inr ''Announcement deleted successfully'' \<and>
        set (snd (delete_announcement lib teachers c aid username)) = set c - {d} \<and>
        find_one (snd (delete_announcement lib teachers c aid username)) oid = None \<and>
        delete_announcement lib teachers
            (snd (delete_announcement lib teachers c aid username)) aid username
          = (Inl NotFound, snd (delete_announcement lib teachers c aid username)))"
proof (intro conjI impI)
  have v: "verify_teacher teachers username = Inr t"
    using assms(1) by (simp add: verify_teacher_def)
  have absent: "delete_announcement lib teachers c' aid username = (Inl NotFound, c')"
    if "find_one c' oid = None" for c'
    using that by (simp add: delete_announcement_def v assms(2) delete_one_absent)
  {
    assume "find_one c oid = None"
    then show "delete_announcement lib teachers c aid username = (Inl NotFound, c)"
      by (rule absent)
  }
  assume f: "find_one c oid = Some d"
  then obtain c' where del: "delete_one c oid = (1, c')"
    by (auto dest: delete_one_present)
  then have r: "delete_announcement lib teachers c aid username
      = (Inr ''Announcement deleted successfully'', c')"
    by (simp add: delete_announcement_def v assms(2))
  from delete_one_set [OF assms(3) f del]
  have c': "set c' = set c - {d}" "find_one c' oid = None" by simp_all
  show "fst (delete_announcement lib teachers c aid username)
      = Inr ''Announcement deleted successfully''"
    by (simp add: r)
  show "set (snd (delete_announcement lib teachers c aid username)) = set c - {d}"
    by (simp add: r c')
  show "find_one (snd (delete_announcement lib teachers c aid username)) oid = None"
    by (simp add: r c')
  show "delete_announcement lib teachers
            (snd (delete_announcement lib teachers c aid username)) aid username
          = (Inl NotFound, snd (delete_announcement lib teachers c aid username))"
    by (simp add: r absent [OF c'(2)])
qed

theorem delete_outcomes_witness:
  "sample_teachers ''mrodriguez'' = Some () \<and>
   ObjectId sample_lib ''65f1a0000000000000000001'' = Some ''65f1a0000000000000000001'' \<and>
   unique_ids [exam_doc, trip_doc] \<and>
   find_one [exam_doc, trip_doc] ''65f1a0000000000000000001'' = Some exam_doc \<and>
   delete_announcement sample_lib sample_teachers [exam_doc, trip_doc]
       ''65f1a0000000000000000001'' ''mrodriguez''
     = (Inr ''Announcement deleted successfully'', [trip_doc]) \<and>
   find_one [trip_doc] ''65f1a0000000000000000001'' = None \<and>
   delete_announcement sample_lib sample_teachers [trip_doc]
       ''65f1a0000000000000000001'' ''mrodriguez''
     = (Inl NotFound, [trip_doc])"
proof -
  have h: "sample_teachers ''mrodriguez'' = Some ()"
    "ObjectId sample_lib ''65f1a0000000000000000001'' = Some ''65f1a0000000000000000001''"
    "unique_ids [exam_doc, trip_doc]" "unique_ids [trip_doc]"
    by (simp_all add: sample_teachers_def sample_lib_def sample_ObjectId_def unique_ids_def
        exam_doc_def trip_doc_def)
  have f: "find_one [exam_doc, trip_doc] ''65f1a0000000000000000001'' = Some exam_doc"
    "find_one [trip_doc] ''65f1a0000000000000000001'' = None"
    by (simp_all add: exam_doc_def trip_doc_def)
  have d: "delete_announcement sample_lib sample_teachers [exam_doc, trip_doc]
       ''65f1a0000000000000000001'' ''mrodriguez''
     = (Inr ''Announcement deleted successfully'', [trip_doc])"
    by (simp add: delete_announcement_def verify_teacher_def h exam_doc_def)
  show ?thesis
    using
      delete_outcomes [where teachers = sample_teachers and username = "''mrodriguez''"
        and t = "()" and lib = sample_lib and aid = "''65f1a0000000000000000001''"
        and oid = "''65f1a0000000000000000001''" and c = "[exam_doc, trip_doc]"
        and d = exam_doc]
      delete_outcomes [where teachers = sample_teachers and username = "''mrodriguez''"
        and t = "()" and lib = sample_lib and aid = "''65f1a0000000000000000001''"
        and oid = "''65f1a0000000000000000001''" and c = "[trip_doc]"
        and d = exam_doc]
    by (simp add: h f d del: find_one.simps)
qed

section \<open>Creating\<close>

lemma verify_teacher_Some: "teachers username = Some t \<Longrightarrow> verify_teacher teachers username = Inr t"
  by (simp add: verify_teacher_def)



lemma replace_Z_eq_Nil: "replace_Z s = [] \<longleftrightarrow> s = []"
  by (cases s) (simp_all add: replace_Z_def)






text \<open>
  A start date without offset and an expiration date with one both parse, but their
  comparison raises \<^verbatim>\<open>TypeError\<close>, which the handler does not catch.
\<close>

lemma create_mixed_offsets:
  "create_announcement sample_lib sample_teachers [] ''65f1a0000000000000000001''
       \<lparr>message = ''Field trip'', start_date = Some ''2025-01-01T00:00:00'',
        expiration_date = ''2099-01-01T00:00:00Z''\<rparr> ''mrodriguez''
     = (Inl TypeError, [])"
  by (simp add: create_announcement_def verify_teacher_def sample_teachers_def
      create_validate_dates_def parse_if_truthy_def check_order_def sample_lib_def
      sample_fromisoformat_def replace_Z_def)

section \<open>Updating\<close>

lemma build_update_doc_empty:
  "build_update_doc u = [] \<longleftrightarrow>
     upd_message u = None \<and> upd_start_date u = None \<and> upd_expiration_date u = None"
  by (simp add: build_update_doc_def split: option.splits)

lemma get_or_build_update_doc:
  "get_or (build_update_doc u) Start_date dflt =
     (case upd_start_date u of None \<Rightarrow> dflt | Some s \<Rightarrow> Some s)"
  "get_or (build_update_doc u) Expiration_date dflt =
     (case upd_expiration_date u of None \<Rightarrow> dflt | Some e \<Rightarrow> Some e)"
  by (simp_all add: get_or_def build_update_doc_def split: option.splits)

lemma apply_set_build_update_doc:
  "doc_message (apply_set (build_update_doc u) d) =
     (case upd_message u of None \<Rightarrow> doc_message d | Some m \<Rightarrow> m)"
  "doc_start_date (apply_set (build_update_doc u) d) =
     (case upd_start_date u of None \<Rightarrow> doc_start_date d | Some s \<Rightarrow> Some s)"
  "doc_expiration_date (apply_set (build_update_doc u) d) =
     (case upd_expiration_date u of None \<Rightarrow> doc_expiration_date d | Some e \<Rightarrow> Some e)"
  by (simp_all add: apply_set_def build_update_doc_def split: option.splits)

text \<open>The handler, once the teacher, the key and the document are found.\<close>

lemma update_announcement_found:
  assumes "verify_teacher teachers username = Inr t"
    and "ObjectId lib aid = Some oid" and "find_one c oid = Some existing"
  shows "update_announcement lib teachers c aid u username =
    (case update_validate_dates lib
            (case upd_start_date u of None \<Rightarrow> doc_start_date existing | Some s \<Rightarrow> Some s)
            (case upd_expiration_date u of
               None \<Rightarrow> doc_expiration_date existing | Some e \<Rightarrow> Some e) of
       Inl e \<Rightarrow> (Inl e, c)
     | Inr _ \<Rightarrow>
         if build_update_doc u = [] then (Inl NoFieldsProvided, c)
         else (Inr (id_to_str lib (apply_set (build_update_doc u) existing)),
               update_one c oid (build_update_doc u)))"
  by (simp add: update_announcement_def assms Let_def get_or_build_update_doc
      find_one_update_one split: sum.splits)

text \<open>Whatever the handler returns, it got past the three lookups.\<close>

lemma update_announcement_InrD:
  assumes "update_announcement lib teachers c aid u username = (Inr updated, c')"
  shows "\<exists>t oid existing. verify_teacher teachers username = Inr t \<and>
      ObjectId lib aid = Some oid \<and> find_one c oid = Some existing"
  using assms
  by (auto simp: update_announcement_def split: sum.splits option.splits)

section \<open>What every reachable collection satisfies\<close>

lemma create_check_implies_update_check:
  "create_validate_dates lib start e = Inr () \<Longrightarrow>
   update_validate_dates lib start (Some e) = Inr ()"
  by (auto simp: create_validate_dates_def update_validate_dates_def parse_if_truthy_def
      split: option.splits sum.splits if_splits)

lemma create_announcement_snd:
  "snd (create_announcement lib teachers c new_id a username) = c \<or>
   (create_validate_dates lib (start_date a) (expiration_date a) = Inr () \<and>
    new_id \<notin> doc_id ` set c \<and>
    snd (create_announcement lib teachers c new_id a username)
      = c @ [\<lparr>doc_id = new_id, doc_message = message a, doc_start_date = start_date a,
               doc_expiration_date = Some (expiration_date a)\<rparr>])"
  by (auto simp: create_announcement_def insert_one_def Let_def split: sum.splits)

lemma update_announcement_snd:
  "snd (update_announcement lib teachers c aid u username) = c \<or>
   (\<exists>oid existing. find_one c oid = Some existing \<and>
      dates_valid lib (apply_set (build_update_doc u) existing) \<and>
      snd (update_announcement lib teachers c aid u username)
        = update_one c oid (build_update_doc u))"
proof (cases "\<exists>t oid existing. verify_teacher teachers username = Inr t \<and>
      ObjectId lib aid = Some oid \<and> find_one c oid = Some existing")
  case True
  then obtain t oid existing where f: "verify_teacher teachers username = Inr t"
      "ObjectId lib aid = Some oid" "find_one c oid = Some existing"
    by blast
  show ?thesis
    unfolding update_announcement_found [OF f]
    using f(3)
    by (auto simp: dates_valid_def apply_set_build_update_doc split: sum.splits)
next
  case False
  then have "snd (update_announcement lib teachers c aid u username) = c"
    by (auto simp: update_announcement_def split: sum.splits option.splits)
  then show ?thesis ..
qed

lemma delete_announcement_snd:
  "snd (delete_announcement lib teachers c aid username) = c \<or>
   (\<exists>oid. snd (delete_announcement lib teachers c aid username) = snd (delete_one c oid))"
proof (cases "verify_teacher teachers username")
  case (Inl e)
  then show ?thesis by (simp add: delete_announcement_def)
next
  case (Inr t)
  show ?thesis
  proof (cases "ObjectId lib aid")
    case None
    with Inr show ?thesis by (simp add: delete_announcement_def)
  next
    case (Some oid)
    with Inr have "snd (delete_announcement lib teachers c aid username)
        = snd (delete_one c oid)"
      by (simp add: delete_announcement_def split: prod.splits)
    then show ?thesis by blast
  qed
qed

lemma delete_one_subset: "set (snd (delete_one c i)) \<subseteq> set c"
  by (induction c) (auto simp: case_prod_beta)

lemma delete_one_unique: "unique_ids c \<Longrightarrow> unique_ids (snd (delete_one c i))"
proof (induction c)
  case Nil
  then show ?case by (simp add: unique_ids_def)
next
  case (Cons d c)
  from Cons.prems have u: "unique_ids c" and n: "doc_id d \<notin> doc_id ` set c"
    by (simp_all add: unique_ids_def)
  show ?case
  proof (cases "doc_id d = i")
    case True
    with u show ?thesis by simp
  next
    case False
    have "doc_id d \<notin> doc_id ` set (snd (delete_one c i))"
      using n delete_one_subset [of c i] by blast
    moreover have "unique_ids (snd (delete_one c i))"
      using u by (rule Cons.IH)
    ultimately show ?thesis
      using False by (simp add: unique_ids_def case_prod_beta)
  qed
qed

lemma update_one_all:
  assumes "list_all P c" and "\<forall>d. find_one c i = Some d \<longrightarrow> P (apply_set u d)"
  shows "list_all P (update_one c i u)"
  using assms
proof (induction c)
  case Nil
  then show ?case by simp
next
  case (Cons a c)
  show ?case
  proof (cases "doc_id a = i")
    case True
    with Cons.prems show ?thesis by simp
  next
    case False
    with Cons show ?thesis by simp
  qed
qed

lemma find_one_all: "list_all P c \<Longrightarrow> find_one c i = Some d \<Longrightarrow> P d"
  by (induction c) (auto split: if_splits)

lemma reachable_invariant:
  "reachable lib teachers c \<Longrightarrow> all_dates_valid lib c \<and> unique_ids c"
proof (induction rule: reachable.induct)
  case reachable_empty
  show ?case by (simp add: all_dates_valid_def unique_ids_def)
next
  case (reachable_create c new_id a username)
  from create_announcement_snd [of lib teachers c new_id a username]
  show ?case
  proof
    assume "snd (create_announcement lib teachers c new_id a username) = c"
    with reachable_create.IH show ?thesis by simp
  next
    assume "create_validate_dates lib (start_date a) (expiration_date a) = Inr () \<and>
      new_id \<notin> doc_id ` set c \<and>
      snd (create_announcement lib teachers c new_id a username)
        = c @ [\<lparr>doc_id = new_id, doc_message = message a, doc_start_date = start_date a,
                 doc_expiration_date = Some (expiration_date a)\<rparr>]"
    with reachable_create.IH show ?thesis
      by (simp add: all_dates_valid_def unique_ids_def dates_valid_def
          create_check_implies_update_check)
  qed
next
  case (reachable_update c aid u username)
  from update_announcement_snd [of lib teachers c aid u username]
  show ?case
  proof
    assume "snd (update_announcement lib teachers c aid u username) = c"
    with reachable_update.IH show ?thesis by simp
  next
    assume "\<exists>oid existing. find_one c oid = Some existing \<and>
      dates_valid lib (apply_set (build_update_doc u) existing) \<and>
      snd (update_announcement lib teachers c aid u username)
        = update_one c oid (build_update_doc u)"
    then obtain oid existing where f: "find_one c oid = Some existing"
        "dates_valid lib (apply_set (build_update_doc u) existing)"
        "snd (update_announcement lib teachers c aid u username)
          = update_one c oid (build_update_doc u)"
      by blast
    have "list_all (dates_valid lib) (update_one c oid (build_update_doc u))"
      using reachable_update.IH f(1,2)
      by (intro update_one_all) (simp_all add: all_dates_valid_def)
    moreover have "unique_ids (update_one c oid (build_update_doc u))"
      using reachable_update.IH by (simp add: unique_ids_def update_one_ids)
    ultimately show ?thesis by (simp add: f(3) all_dates_valid_def)
  qed
next
  case (reachable_delete c aid username)
  from delete_announcement_snd [of lib teachers c aid username]
  show ?case
  proof
    assume "snd (delete_announcement lib teachers c aid username) = c"
    with reachable_delete.IH show ?thesis by simp
  next
    assume "\<exists>oid. snd (delete_announcement lib teachers c aid username)
      = snd (delete_one c oid)"
    then obtain oid where d: "snd (delete_announcement lib teachers c aid username)
      = snd (delete_one c oid)" ..
    have "list_all (dates_valid lib) (snd (delete_one c oid))"
      using reachable_delete.IH delete_one_subset [of c oid]
      by (auto simp: all_dates_valid_def list_all_iff)
    with reachable_delete.IH show ?thesis
      by (simp add: d all_dates_valid_def delete_one_unique)
  qed
qed

text \<open>
  The emptiness test comes after the date check, which then runs on the stored dates:
  with no field supplied, the handler raises NoFieldsProvided when the stored pair
  passes the check, and the error of the check otherwise.
\<close>

lemma empty_update_outcome:
  assumes "verify_teacher teachers username = Inr t" and "ObjectId lib aid = Some oid"
    and "find_one c oid = Some existing"
    and "upd_message u = None" and "upd_start_date u = None"
    and "upd_expiration_date u = None"
  shows "update_announcement lib teachers c aid u username =
    (case update_validate_dates lib (doc_start_date existing)
            (doc_expiration_date existing) of
       Inl e \<Rightarrow> (Inl e, c) | Inr _ \<Rightarrow> (Inl NoFieldsProvided, c))"
proof -
  have "build_update_doc u = []"
    by (simp add: build_update_doc_empty assms)
  then show ?thesis
    by (simp add: update_announcement_found [OF assms(1,2,3)] assms(4,5,6))
qed

text \<open>
  C5. In every collection the handlers can reach, an authorized update of an existing
  document with no field supplied raises NoFieldsProvided and leaves the collection as
  it was; the document is still stored under its key, unchanged.
\<close>

theorem update_no_fields:
  assumes "reachable lib teachers c"
    and "teachers username = Some t" and "ObjectId lib aid = Some oid"
    and "find_one c oid = Some existing"
    and "upd_message u = None" and "upd_start_date u = None"
    and "upd_expiration_date u = None"
  shows "update_announcement lib teachers c aid u username = (Inl NoFieldsProvided, c) \<and>
         find_one (snd (update_announcement lib teachers c aid u username)) oid
           = Some existing"
proof -
  have v: "verify_teacher teachers username = Inr t"
    using assms(2) by (rule verify_teacher_Some)
  have "all_dates_valid lib c"
    using assms(1) by (simp add: reachable_invariant)
  then have "dates_valid lib existing"
    unfolding all_dates_valid_def using assms(4) by (rule find_one_all)
  then have "update_validate_dates lib (doc_start_date existing)
      (doc_expiration_date existing) = Inr ()"
    by (simp add: dates_valid_def)
  then show ?thesis
    by (simp add: empty_update_outcome [OF v assms(3,4,5,6,7)] assms(4))
qed

theorem update_no_fields_witness:
  "reachable sample_lib sample_teachers [exam_doc] \<and>
   sample_teachers ''mrodriguez'' = Some () \<and>
   ObjectId sample_lib ''65f1a0000000000000000001'' = Some ''65f1a0000000000000000001'' \<and>
   find_one [exam_doc] ''65f1a0000000000000000001'' = Some exam_doc \<and>
   update_announcement sample_lib sample_teachers [exam_doc] ''65f1a0000000000000000001''
       \<lparr>upd_message = None, upd_start_date = None, upd_expiration_date = None\<rparr>
       ''mrodriguez''
     = (Inl NoFieldsProvided, [exam_doc])"
proof -
  have "create_announcement sample_lib sample_teachers [] ''65f1a0000000000000000001''
       \<lparr>message = ''Exam tomorrow'', start_date = Some ''2025-01-01T00:00:00'',
        expiration_date = ''2025-06-01T00:00:00''\<rparr> ''mrodriguez''
     = (Inr exam_doc, [exam_doc])"
    by (simp add: create_announcement_def verify_teacher_def sample_teachers_def
        create_validate_dates_def parse_if_truthy_def check_order_def sample_lib_def
        sample_fromisoformat_def replace_Z_def insert_one_def id_to_str_def exam_doc_def
        Let_def)
  then have r: "reachable sample_lib sample_teachers [exam_doc]"
    using reachable_create [OF reachable_empty, of sample_lib sample_teachers
        "''65f1a0000000000000000001''"
        "\<lparr>message = ''Exam tomorrow'', start_date = Some ''2025-01-01T00:00:00'',
          expiration_date = ''2025-06-01T00:00:00''\<rparr>" "''mrodriguez''"]
    by simp
  have h: "sample_teachers ''mrodriguez'' = Some ()"
    "ObjectId sample_lib ''65f1a0000000000000000001'' = Some ''65f1a0000000000000000001''"
    "find_one [exam_doc] ''65f1a0000000000000000001'' = Some exam_doc"
    by (simp_all add: sample_teachers_def sample_lib_def sample_ObjectId_def exam_doc_def)
  show ?thesis
    using update_no_fields [where lib = sample_lib and teachers = sample_teachers
        and c = "[exam_doc]" and username = "''mrodriguez''" and t = "()"
        and aid = "''65f1a0000000000000000001''" and oid = "''65f1a0000000000000000001''"
        and existing = exam_doc
        and u = "\<lparr>upd_message = None, upd_start_date = None,
                  upd_expiration_date = None\<rparr>"]
    by (simp add: r h del: find_one.simps)
qed

text \<open>
  C6. When an update succeeds on the stored document \<open>existing\<close> found under the key
  \<open>oid\<close>: the document returned and stored carries, for every field the request
  supplied, the supplied value, and for every field it left out, the prior value; its
  key is the prior key; the keys of the collection and every document under another key
  are unchanged.
\<close>

theorem update_frame:
  assumes "update_announcement lib teachers c aid u username = (Inr updated, c')"
    and "ObjectId lib aid = Some oid" and "find_one c oid = Some existing"
  shows
    "doc_id updated = str_oid lib (doc_id existing) \<and>
     doc_message updated =
       (case upd_message u of None \<Rightarrow> doc_message existing | Some m \<Rightarrow> m) \<and>
     doc_start_date updated =
       (case upd_start_date u of None \<Rightarrow> doc_start_date existing | Some s \<Rightarrow> Some s) \<and>
     doc_expiration_date updated =
       (case upd_expiration_date u of
          None \<Rightarrow> doc_expiration_date existing | Some e \<Rightarrow> Some e) \<and>
     map_option (id_to_str lib) (find_one c' oid) = Some updated \<and>
     map_option doc_id (find_one c' oid) = Some (doc_id existing) \<and>
     map doc_id c' = map doc_id c \<and>
     (j \<noteq> oid \<longrightarrow> find_one c' j = find_one c j)"
proof -
  from update_announcement_InrD [OF assms(1)] assms(2)
  obtain t where v: "verify_teacher teachers username = Inr t"
    by auto
  let ?new = "apply_set (build_update_doc u) existing"
  from assms(1) have r: "updated = id_to_str lib ?new"
    "c' = update_one c oid (build_update_doc u)"
    unfolding update_announcement_found [OF v assms(2,3)]
    by (auto split: sum.splits if_splits)
  show ?thesis
    by (simp add: r id_to_str_fields apply_set_build_update_doc apply_set_id
        find_one_update_one assms(3) update_one_ids)
qed

theorem update_frame_witness:
  "update_announcement sample_lib sample_teachers [exam_doc, trip_doc]
       ''65f1a0000000000000000001''
       \<lparr>upd_message = Some ''Exam moved'', upd_start_date = None,
        upd_expiration_date = None\<rparr> ''mrodriguez''
     = (Inr (exam_doc\<lparr>doc_message := ''Exam moved''\<rparr>),
        [exam_doc\<lparr>doc_message := ''Exam moved''\<rparr>, trip_doc]) \<and>
   ObjectId sample_lib ''65f1a0000000000000000001'' = Some ''65f1a0000000000000000001'' \<and>
   find_one [exam_doc, trip_doc] ''65f1a0000000000000000001'' = Some exam_doc \<and>
   doc_start_date (exam_doc\<lparr>doc_message := ''Exam moved''\<rparr>) = doc_start_date exam_doc \<and>
   doc_expiration_date (exam_doc\<lparr>doc_message := ''Exam moved''\<rparr>)
     = doc_expiration_date exam_doc \<and>
   find_one [exam_doc\<lparr>doc_message := ''Exam moved''\<rparr>, trip_doc]
       ''65f1a0000000000000000002''
     = find_one [exam_doc, trip_doc] ''65f1a0000000000000000002''"
proof -
  have u: "update_announcement sample_lib sample_teachers [exam_doc, trip_doc]
       ''65f1a0000000000000000001''
       \<lparr>upd_message = Some ''Exam moved'', upd_start_date = None,
        upd_expiration_date = None\<rparr> ''mrodriguez''
     = (Inr (exam_doc\<lparr>doc_message := ''Exam moved''\<rparr>),
        [exam_doc\<lparr>doc_message := ''Exam moved''\<rparr>, trip_doc])"
    by (simp add: update_announcement_def verify_teacher_def sample_teachers_def
        sample_lib_def sample_ObjectId_def sample_fromisoformat_def exam_doc_def
        build_update_doc_def get_or_def update_validate_dates_def parse_if_truthy_def
        check_order_def replace_Z_def apply_set_def id_to_str_def)
  have h: "ObjectId sample_lib ''65f1a0000000000000000001''
      = Some ''65f1a0000000000000000001''"
    "find_one [exam_doc, trip_doc] ''65f1a0000000000000000001'' = Some exam_doc"
    by (simp_all add: sample_lib_def sample_ObjectId_def exam_doc_def)
  show ?thesis
    using update_frame [OF u h, of "''65f1a0000000000000000002''"]
    by (simp add: u h del: find_one.simps)
qed

section \<open>Null fields and the fields that stay\<close>

lemma field_value_drop_null: "field_value (drop_null x) = field_value x"
  by (cases x) simp_all

lemma of_json_drop_null:
  "AnnouncementUpdate_of_json (drop_null m) (drop_null s) (drop_null e)
     = AnnouncementUpdate_of_json m s e"
  by (simp add: AnnouncementUpdate_of_json_def field_value_drop_null)

lemma build_update_doc_keys:
  "Message \<in> fst ` set (build_update_doc u) \<longleftrightarrow> upd_message u \<noteq> None"
  "Start_date \<in> fst ` set (build_update_doc u) \<longleftrightarrow> upd_start_date u \<noteq> None"
  "Expiration_date \<in> fst ` set (build_update_doc u) \<longleftrightarrow> upd_expiration_date u \<noteq> None"
  by (cases "upd_message u"; cases "upd_start_date u"; cases "upd_expiration_date u";
      simp add: build_update_doc_def)+

lemma find_one_append: "find_one c j = Some d \<Longrightarrow> find_one (c @ xs) j = Some d"
  by (induction c) (auto split: if_splits)

lemma find_one_delete_one_other:
  "j \<noteq> i \<Longrightarrow> find_one (snd (delete_one c i)) j = find_one c j"
  by (induction c) (simp_all add: case_prod_beta)

lemma find_one_delete_one_same:
  assumes "unique_ids c"
  shows "find_one (snd (delete_one c i)) i = None"
proof (cases "find_one c i")
  case None
  then show ?thesis by (simp add: delete_one_absent)
next
  case (Some d)
  obtain n c' where r: "delete_one c i = (n, c')" by (cases "delete_one c i")
  from delete_one_set [OF assms Some r] show ?thesis by (simp add: r)
qed

lemma find_one_after_create:
  assumes "find_one c j = Some d"
  shows "find_one (snd (create_announcement lib teachers c new_id a username)) j = Some d"
  using create_announcement_snd [of lib teachers c new_id a username] assms
  by (auto simp: find_one_append)

lemma find_one_after_update:
  assumes "find_one c j = Some d"
  shows "find_one (snd (update_announcement lib teachers c aid u username)) j = Some d \<or>
         find_one (snd (update_announcement lib teachers c aid u username)) j
           = Some (apply_set (build_update_doc u) d)"
  using update_announcement_snd [of lib teachers c aid u username] assms
  by (auto simp: find_one_update_one)

lemma find_one_after_delete:
  assumes "unique_ids c" and "find_one c j = Some d"
  shows "find_one (snd (delete_announcement lib teachers c aid username)) j = None \<or>
         find_one (snd (delete_announcement lib teachers c aid username)) j = Some d"
proof -
  from delete_announcement_snd [of lib teachers c aid username]
  show ?thesis
  proof
    assume "snd (delete_announcement lib teachers c aid username) = c"
    with assms(2) show ?thesis by simp
  next
    assume "\<exists>oid. snd (delete_announcement lib teachers c aid username)
      = snd (delete_one c oid)"
    then obtain oid where r: "snd (delete_announcement lib teachers c aid username)
      = snd (delete_one c oid)" ..
    show ?thesis
    proof (cases "j = oid")
      case True
      then show ?thesis by (simp add: r find_one_delete_one_same [OF assms(1)])
    next
      case False
      then show ?thesis by (simp add: r find_one_delete_one_other assms(2))
    qed
  qed
qed

text \<open>
  C10. A null field of the body of an update is read as a field left out: the handler
  does the same on both bodies, the update document has no item for it, and the stored
  value stays. For a document stored under a key of a collection with unique keys: if
  it has a start date, it still has one after any update; if it has an expiration date,
  it still has one, as long as it is stored, after any update, create or delete
  (\<open>get_all_announcements\<close> returns the collection as it was, and
  \<open>get_active_announcements\<close> returns none).
\<close>

theorem null_field_is_omitted:
  assumes "unique_ids c" and "find_one c j = Some d"
  shows
    "update_announcement lib teachers c aid (AnnouncementUpdate_of_json m s e) username
       = update_announcement lib teachers c aid
           (AnnouncementUpdate_of_json (drop_null m) (drop_null s) (drop_null e)) username \<and>
     (m = Null \<longrightarrow>
        Message \<notin> fst ` set (build_update_doc (AnnouncementUpdate_of_json m s e)) \<and>
        map_option doc_message
          (find_one (snd (update_announcement lib teachers c aid
             (AnnouncementUpdate_of_json m s e) username)) j) = Some (doc_message d)) \<and>
     (s = Null \<longrightarrow>
        Start_date \<notin> fst ` set (build_update_doc (AnnouncementUpdate_of_json m s e)) \<and>
        map_option doc_start_date
          (find_one (snd (update_announcement lib teachers c aid
             (AnnouncementUpdate_of_json m s e) username)) j) = Some (doc_start_date d)) \<and>
     (e = Null \<longrightarrow>
        Expiration_date \<notin> fst ` set (build_update_doc (AnnouncementUpdate_of_json m s e)) \<and>
        map_option doc_expiration_date
          (find_one (snd (update_announcement lib teachers c aid
             (AnnouncementUpdate_of_json m s e) username)) j)
          = Some (doc_expiration_date d)) \<and>
     (doc_start_date d \<noteq> None \<longrightarrow>
        (\<exists>d'. find_one (snd (update_announcement lib teachers c aid u username)) j = Some d'
           \<and> doc_start_date d' \<noteq> None)) \<and>
     (doc_expiration_date d \<noteq> None \<longrightarrow>
        (\<exists>d'. find_one (snd (update_announcement lib teachers c aid u username)) j = Some d'
           \<and> doc_expiration_date d' \<noteq> None) \<and>
        (\<exists>d'. find_one (snd (create_announcement lib teachers c new_id a username)) j
             = Some d' \<and> doc_expiration_date d' \<noteq> None) \<and>
        (find_one (snd (delete_announcement lib teachers c aid username)) j = None \<or>
         find_one (snd (delete_announcement lib teachers c aid username)) j = Some d) \<and>
        snd (get_all_announcements lib teachers c username) = c)"
proof (intro conjI impI)
  let ?u = "AnnouncementUpdate_of_json m s e"
  show "update_announcement lib teachers c aid ?u username
       = update_announcement lib teachers c aid
           (AnnouncementUpdate_of_json (drop_null m) (drop_null s) (drop_null e)) username"
    by (simp add: of_json_drop_null)
  note upd = find_one_after_update [OF assms(2), of lib teachers aid _ username]
  {
    assume "m = Null"
    then have n: "upd_message ?u = None" by (simp add: AnnouncementUpdate_of_json_def)
    then show "Message \<notin> fst ` set (build_update_doc ?u)"
      by (simp add: build_update_doc_keys)
    from upd [of ?u] n
    show "map_option doc_message
          (find_one (snd (update_announcement lib teachers c aid ?u username)) j)
          = Some (doc_message d)"
      by (auto simp: apply_set_build_update_doc)
  }
  {
    assume "s = Null"
    then have n: "upd_start_date ?u = None" by (simp add: AnnouncementUpdate_of_json_def)
    then show "Start_date \<notin> fst ` set (build_update_doc ?u)"
      by (simp add: build_update_doc_keys)
    from upd [of ?u] n
    show "map_option doc_start_date
          (find_one (snd (update_announcement lib teachers c aid ?u username)) j)
          = Some (doc_start_date d)"
      by (auto simp: apply_set_build_update_doc)
  }
  {
    assume "e = Null"
    then have n: "upd_expiration_date ?u = None"
      by (simp add: AnnouncementUpdate_of_json_def)
    then show "Expiration_date \<notin> fst ` set (build_update_doc ?u)"
      by (simp add: build_update_doc_keys)
    from upd [of ?u] n
    show "map_option doc_expiration_date
          (find_one (snd (update_announcement lib teachers c aid ?u username)) j)
          = Some (doc_expiration_date d)"
      by (auto simp: apply_set_build_update_doc)
  }
  {
    assume "doc_start_date d \<noteq> None"
    with upd [of u]
    show "\<exists>d'. find_one (snd (update_announcement lib teachers c aid u username)) j = Some d'
           \<and> doc_start_date d' \<noteq> None"
      by (auto simp: apply_set_build_update_doc split: option.splits)
  }
  assume x: "doc_expiration_date d \<noteq> None"
  with upd [of u]
  show "\<exists>d'. find_one (snd (update_announcement lib teachers c aid u username)) j = Some d'
           \<and> doc_expiration_date d' \<noteq> None"
    by (auto simp: apply_set_build_update_doc split: option.splits)
  from x find_one_after_create [OF assms(2)]
  show "\<exists>d'. find_one (snd (create_announcement lib teachers c new_id a username)) j
             = Some d' \<and> doc_expiration_date d' \<noteq> None"
    by blast
  show "find_one (snd (delete_announcement lib teachers c aid username)) j = None \<or>
         find_one (snd (delete_announcement lib teachers c aid username)) j = Some d"
    using assms by (rule find_one_after_delete)
  show "snd (get_all_announcements lib teachers c username) = c"
    by (simp add: get_all_announcements_def split: sum.splits)
qed

theorem null_field_is_omitted_witness:
  "unique_ids [exam_doc] \<and>
   find_one [exam_doc] ''65f1a0000000000000000001'' = Some exam_doc \<and>
   update_announcement sample_lib sample_teachers [exam_doc] ''65f1a0000000000000000001''
       (AnnouncementUpdate_of_json (Given ''Exam moved'') Null Null) ''mrodriguez''
     = (Inr (exam_doc\<lparr>doc_message := ''Exam moved''\<rparr>),
        [exam_doc\<lparr>doc_message := ''Exam moved''\<rparr>]) \<and>
   update_announcement sample_lib sample_teachers [exam_doc] ''65f1a0000000000000000001''
       (AnnouncementUpdate_of_json (Given ''Exam moved'') Omitted Omitted) ''mrodriguez''
     = (Inr (exam_doc\<lparr>doc_message := ''Exam moved''\<rparr>),
        [exam_doc\<lparr>doc_message := ''Exam moved''\<rparr>]) \<and>
   doc_start_date exam_doc \<noteq> None \<and> doc_expiration_date exam_doc \<noteq> None \<and>
   doc_start_date (exam_doc\<lparr>doc_message := ''Exam moved''\<rparr>) = doc_start_date exam_doc \<and>
   doc_expiration_date (exam_doc\<lparr>doc_message := ''Exam moved''\<rparr>)
     = doc_expiration_date exam_doc"
proof -
  have u: "update_announcement sample_lib sample_teachers [exam_doc]
       ''65f1a0000000000000000001''
       (AnnouncementUpdate_of_json (Given ''Exam moved'') Null Null) ''mrodriguez''
     = (Inr (exam_doc\<lparr>doc_message := ''Exam moved''\<rparr>),
        [exam_doc\<lparr>doc_message := ''Exam moved''\<rparr>])"
    by (simp add: update_announcement_def verify_teacher_def sample_teachers_def
        sample_lib_def sample_ObjectId_def sample_fromisoformat_def exam_doc_def
        AnnouncementUpdate_of_json_def build_update_doc_def get_or_def
        update_validate_dates_def parse_if_truthy_def check_order_def replace_Z_def
        apply_set_def id_to_str_def)
  have h: "unique_ids [exam_doc]"
    "find_one [exam_doc] ''65f1a0000000000000000001'' = Some exam_doc"
    by (simp_all add: unique_ids_def exam_doc_def)
  have d: "doc_start_date exam_doc \<noteq> None" "doc_expiration_date exam_doc \<noteq> None"
    by (simp_all add: exam_doc_def)
  show ?thesis
    using null_field_is_omitted [OF h, where lib = sample_lib
        and teachers = sample_teachers and aid = "''65f1a0000000000000000001''"
        and username = "''mrodriguez''" and m = "Given ''Exam moved''" and s = Null
        and e = Null
        and u = "AnnouncementUpdate_of_json (Given ''Exam moved'') Null Null"
        and new_id = "''65f1a0000000000000000002''"
        and a = "\<lparr>message = ''Field trip'', start_date = None,
                  expiration_date = ''2099-01-01T00:00:00Z''\<rparr>"]
    by (simp add: u h d del: find_one.simps)
qed

section \<open>The empty string as a date\<close>

text \<open>
  Where the two date checks agree: on every effective pair whose expiration date is a
  non-empty string.
\<close>

lemma update_check_agrees_with_create:
  "e \<noteq> [] \<Longrightarrow> update_validate_dates lib start (Some e) = create_validate_dates lib start e"
  by (simp add: update_validate_dates_def create_validate_dates_def parse_if_truthy_def
      split: option.splits sum.splits)

text \<open>A supplied date that is not empty and does not parse is refused by both checks.\<close>

lemma create_unparsable_refused:
  assumes "fromisoformat lib (replace_Z s) = None"
    and "expiration = s \<or> (start = Some s \<and> s \<noteq> [])"
  shows "create_validate_dates lib start expiration = Inl InvalidDateFormat"
  using assms
  by (auto simp: create_validate_dates_def parse_if_truthy_def split: option.splits)

lemma update_unparsable_refused:
  assumes "fromisoformat lib (replace_Z s) = None" and "s \<noteq> []"
    and "exp_date = Some s \<or> start = Some s"
  shows "update_validate_dates lib start exp_date = Inl InvalidDateFormat"
  using assms
  by (auto simp: update_validate_dates_def parse_if_truthy_def
      split: option.splits sum.splits)

text \<open>
  C3, at the failing input. On the stored document \<open>exam_doc\<close>, an update that supplies
  the empty string as expiration date passes the handler's date check and is persisted,
  while the date check of \<open>create_announcement\<close> refuses the same effective pair with
  InvalidDateFormat.
\<close>

theorem update_skips_empty_expiration:
  "update_validate_dates sample_lib (doc_start_date exam_doc) (Some '''') = Inr () \<and>
   create_validate_dates sample_lib (doc_start_date exam_doc) '''' = Inl InvalidDateFormat \<and>
   update_announcement sample_lib sample_teachers [exam_doc] ''65f1a0000000000000000001''
       \<lparr>upd_message = None, upd_start_date = None, upd_expiration_date = Some ''''\<rparr>
       ''mrodriguez''
     = (Inr (exam_doc\<lparr>doc_expiration_date := Some ''''\<rparr>),
        [exam_doc\<lparr>doc_expiration_date := Some ''''\<rparr>])"
  by (simp add: update_announcement_def verify_teacher_def sample_teachers_def
      sample_lib_def sample_ObjectId_def sample_fromisoformat_def exam_doc_def
      build_update_doc_def get_or_def update_validate_dates_def create_validate_dates_def
      parse_if_truthy_def check_order_def replace_Z_def apply_set_def id_to_str_def)

text \<open>
  C4, at the failing inputs. The empty string does not parse, and
  \<open>create_announcement\<close> refuses it as expiration date; but it accepts it as start
  date and stores it, and \<open>update_announcement\<close> accepts it as start date and stores
  it.
\<close>

theorem empty_date_string_accepted:
  "fromisoformat sample_lib (replace_Z '''') = None \<and>
   create_announcement sample_lib sample_teachers [] ''65f1a0000000000000000001''
       \<lparr>message = ''Exam tomorrow'', start_date = None, expiration_date = ''''\<rparr>
       ''mrodriguez''
     = (Inl InvalidDateFormat, []) \<and>
   create_announcement sample_lib sample_teachers [] ''65f1a0000000000000000001''
       \<lparr>message = ''Exam tomorrow'', start_date = Some '''',
        expiration_date = ''2025-06-01T00:00:00''\<rparr> ''mrodriguez''
     = (Inr (exam_doc\<lparr>doc_start_date := Some ''''\<rparr>),
        [exam_doc\<lparr>doc_start_date := Some ''''\<rparr>]) \<and>
   update_announcement sample_lib sample_teachers [exam_doc] ''65f1a0000000000000000001''
       \<lparr>upd_message = None, upd_start_date = Some '''', upd_expiration_date = None\<rparr>
       ''mrodriguez''
     = (Inr (exam_doc\<lparr>doc_start_date := Some ''''\<rparr>),
        [exam_doc\<lparr>doc_start_date := Some ''''\<rparr>])"
  by (simp add: create_announcement_def update_announcement_def verify_teacher_def
      sample_teachers_def sample_lib_def sample_ObjectId_def sample_fromisoformat_def
      exam_doc_def build_update_doc_def get_or_def update_validate_dates_def
      create_validate_dates_def parse_if_truthy_def check_order_def replace_Z_def
      apply_set_def id_to_str_def insert_one_def Let_def)

end
